theory Spec2Isabelle
  imports Main "HOL-Library.AList"
begin

section \<open>Python strings\<close>

text \<open>
  A Python \<open>str\<close> is a sequence of Unicode code points, so it is modelled as a list of
  natural numbers. \<open>lit\<close> turns an ASCII literal of the source into that list.
\<close>

type_synonym pystr = "nat list"

definition lit :: "string \<Rightarrow> pystr" where
  "lit s = map of_char s"

abbreviation newline :: nat where "newline \<equiv> 10"
abbreviation colon :: nat where "colon \<equiv> 58"
abbreviation pipe :: nat where "pipe \<equiv> 124"

text \<open>
  The code points that \<open>str.strip()\<close> removes when called without argument: those for
  which \<open>str.isspace\<close> holds (TAB..CR, FS..US, space, NEL, NBSP, and the Unicode spaces
  and line separators).
\<close>

definition isspace :: "nat \<Rightarrow> bool" where
  "isspace c \<longleftrightarrow>
     (9 \<le> c \<and> c \<le> 13) \<or> (28 \<le> c \<and> c \<le> 32) \<or> c = 133 \<or> c = 160 \<or> c = 5760 \<or>
     (8192 \<le> c \<and> c \<le> 8202) \<or> c = 8232 \<or> c = 8233 \<or> c = 8239 \<or> c = 8287 \<or>
     c = 12288"

text \<open>\<open>s.strip()\<close>: whitespace removed at both ends.\<close>

definition strip :: "pystr \<Rightarrow> pystr" where
  "strip s = rev (dropWhile isspace (rev (dropWhile isspace s)))"

text \<open>
  \<open>s.split(sep)\<close> for a one-character separator: the pieces between the occurrences of
  \<open>sep\<close>, empty pieces included; a string without \<open>sep\<close> gives the one-element list.
  The result is never the empty list, so the last case below is never taken.
\<close>

fun split :: "nat \<Rightarrow> pystr \<Rightarrow> pystr list" where
  "split sep [] = [[]]"
| "split sep (c # cs) =
     (if c = sep then [] # split sep cs
      else (case split sep cs of
              piece # pieces \<Rightarrow> (c # piece) # pieces
            | [] \<Rightarrow> [[c]]))"

text \<open>\<open>s.split(sep, 1)\<close>: at most one split, at the first occurrence of \<open>sep\<close>.\<close>

definition split1 :: "nat \<Rightarrow> pystr \<Rightarrow> pystr list" where
  "split1 sep s =
     (if sep \<in> set s
      then [takeWhile (\<lambda>c. c \<noteq> sep) s, tl (dropWhile (\<lambda>c. c \<noteq> sep) s)]
      else [s])"

text \<open>\<open>sep.join(xs)\<close>.\<close>

fun join :: "pystr \<Rightarrow> pystr list \<Rightarrow> pystr" where
  "join sep [] = []"
| "join sep [x] = x"
| "join sep (x # y # ys) = x @ sep @ join sep (y # ys)"

section \<open>Exceptions\<close>

text \<open>
  A raised exception instance is its class name, whether that class derives from
  \<open>Exception\<close> (as \<open>ValueError\<close> and \<open>TimeoutError\<close> do) or from \<open>BaseException\<close>
  only (as \<open>asyncio.CancelledError\<close>, \<open>KeyboardInterrupt\<close> and \<open>SystemExit\<close> do), and
  the text \<open>str(e)\<close>. The tuple assignment \<open>tone, options_str = ...\<close> raises
  \<open>ValueError\<close> unless the right-hand side has exactly two elements.
\<close>

datatype py_exception =
  PyException (exc_class: pystr) (isinstance_Exception: bool) (exc_text: pystr)

fun unpack2 :: "'a list \<Rightarrow> py_exception + 'a \<times> 'a" where
  "unpack2 [a, b] = Inr (a, b)"
| "unpack2 [] =
     Inl (PyException (lit ''ValueError'') True
            (lit ''not enough values to unpack (expected 2, got 0)''))"
| "unpack2 [a] =
     Inl (PyException (lit ''ValueError'') True
            (lit ''not enough values to unpack (expected 2, got 1)''))"
| "unpack2 (a # b # c # cs) =
     Inl (PyException (lit ''ValueError'') True (lit ''too many values to unpack (expected 2)''))"

section \<open>Parsing the completion (main.py, lines 125 to 134)\<close>

text \<open>
  \<open>parsed_options\<close> is a Python dict from tone label to list of options. A dict keeps
  its keys in insertion order and an assignment to a key already present replaces the value
  in place, which is what \<open>AList.update\<close> does on an association list.
\<close>

type_synonym options_dict = "(pystr \<times> pystr list) list"

text \<open>\<open>[opt.strip() for opt in options_str.split('|') if opt.strip()]\<close>\<close>

definition parse_option_list :: "pystr \<Rightarrow> pystr list" where
  "parse_option_list options_str =
     map strip (filter (\<lambda>opt. strip opt \<noteq> []) (split pipe options_str))"

text \<open>The body of the loop \<open>for line in lines\<close>.\<close>

definition parse_line :: "options_dict \<Rightarrow> pystr \<Rightarrow> py_exception + options_dict" where
  "parse_line parsed_options line =
     (if colon \<in> set line then
        (case unpack2 (split1 colon line) of
           Inl e \<Rightarrow> Inl e
         | Inr (tone, options_str) \<Rightarrow>
             (let options = parse_option_list options_str
              in if options \<noteq> []
                 then Inr (AList.update (strip tone) options parsed_options)
                 else Inr parsed_options))
      else Inr parsed_options)"

fun parse_lines :: "options_dict \<Rightarrow> pystr list \<Rightarrow> py_exception + options_dict" where
  "parse_lines parsed_options [] = Inr parsed_options"
| "parse_lines parsed_options (line # rest) =
     (case parse_line parsed_options line of
        Inl e \<Rightarrow> Inl e
      | Inr parsed_options' \<Rightarrow> parse_lines parsed_options' rest)"

text \<open>
  \<open>lines = response_text.strip().split('\n')\<close>, then the loop from the empty dict.
\<close>

definition parse_response :: "pystr \<Rightarrow> py_exception + options_dict" where
  "parse_response response_text = parse_lines [] (split newline (strip response_text))"

section \<open>Data model (models.py)\<close>

text \<open>
  A field typed \<open>Literal[...]\<close> holds a plain \<open>str\<close> at run time, one of the listed
  values once the model is validated; the lists of admitted values are the constants below.
  The field \<open>id\<close> of \<open>UserProfile\<close> is written \<open>id'\<close>.
\<close>

record Personality =
  openness :: pystr
  conscientiousness :: pystr
  extraversion :: pystr
  agreeableness :: pystr
  neuroticism :: pystr

record CommunicationStyle =
  formality_preference :: pystr
  conciseness_preference :: pystr
  humor_level :: pystr
  empathy_level :: pystr
  flirty_level :: pystr

record UserProfile =
  id' :: pystr
  personality :: Personality
  communication_style :: CommunicationStyle
  values_boundaries :: "pystr list"

record GenerateResponseRequest =
  user_id :: pystr
  incoming_message :: pystr
  conversation_context_type :: pystr
  desired_tones :: "pystr list"

definition conversation_context_types :: "pystr list" where
  "conversation_context_types =
     [lit ''professional'', lit ''casual'', lit ''personal'', lit ''dating'',
      lit ''group_chat'', lit ''other'']"

definition tones :: "pystr list" where
  "tones =
     [lit ''professional'', lit ''formal'', lit ''semi_formal'', lit ''chatty'', lit ''flirty'',
      lit ''funny'', lit ''empathetic'', lit ''direct'', lit ''diplomatic'', lit ''concise'']"

section \<open>Serialising the profile: \<open>json.dumps(user_profile.model_dump(), indent=2)\<close>\<close>

text \<open>
  \<open>model_dump()\<close> gives nested dicts, lists and strings, the fields in declaration order.
\<close>

datatype pyval = PStr pystr | PList "pyval list" | PDict "(pystr \<times> pyval) list"

definition model_dump :: "UserProfile \<Rightarrow> pyval" where
  "model_dump p =
     PDict
      [(lit ''id'', PStr (id' p)),
       (lit ''personality'',
          PDict
           [(lit ''openness'', PStr (openness (personality p))),
            (lit ''conscientiousness'', PStr (conscientiousness (personality p))),
            (lit ''extraversion'', PStr (extraversion (personality p))),
            (lit ''agreeableness'', PStr (agreeableness (personality p))),
            (lit ''neuroticism'', PStr (neuroticism (personality p)))]),
       (lit ''communication_style'',
          PDict
           [(lit ''formality_preference'', PStr (formality_preference (communication_style p))),
            (lit ''conciseness_preference'',
               PStr (conciseness_preference (communication_style p))),
            (lit ''humor_level'', PStr (humor_level (communication_style p))),
            (lit ''empathy_level'', PStr (empathy_level (communication_style p))),
            (lit ''flirty_level'', PStr (flirty_level (communication_style p)))]),
       (lit ''values_boundaries'', PList (map PStr (values_boundaries p)))]"

text \<open>
  String encoding of \<open>json.dumps\<close> with the default \<open>ensure_ascii=True\<close>: the short
  escapes for backslash, double quote, BS, FF, LF, CR and TAB; every other code point
  outside space..tilde as \<open>\uXXXX\<close> in lower-case hexadecimal, a surrogate pair above
  U+FFFF.
\<close>

definition hex_digit :: "nat \<Rightarrow> nat" where
  "hex_digit n = (if n < 10 then 48 + n else 87 + n)"

definition hex4 :: "nat \<Rightarrow> pystr" where
  "hex4 n =
     [hex_digit (n div 4096 mod 16), hex_digit (n div 256 mod 16),
      hex_digit (n div 16 mod 16), hex_digit (n mod 16)]"

definition escape_char :: "nat \<Rightarrow> pystr" where
  "escape_char c =
     (if c = 92 then [92, 92]
      else if c = 34 then [92, 34]
      else if c = 8 then [92, 98]
      else if c = 12 then [92, 102]
      else if c = 10 then [92, 110]
      else if c = 13 then [92, 114]
      else if c = 9 then [92, 116]
      else if 32 \<le> c \<and> c \<le> 126 then [c]
      else if c < 65536 then [92, 117] @ hex4 c
      else [92, 117] @ hex4 (55296 + (c - 65536) div 1024 mod 1024) @
           [92, 117] @ hex4 (56320 + (c - 65536) mod 1024))"

definition encode_str :: "pystr \<Rightarrow> pystr" where
  "encode_str s = [34] @ concat (map escape_char s) @ [34]"

definition newline_indent :: "nat \<Rightarrow> pystr" where
  "newline_indent level = newline # replicate (2 * level) 32"

text \<open>
  \<open>json_dumps level v\<close>: the text of \<open>v\<close> with \<open>indent=2\<close>, where \<open>v\<close> stands at
  nesting depth \<open>level\<close>. Items are separated by a comma and a line break, a key from
  its value by a colon and a space; the empty list and dict are \<open>[]\<close> and \<open>{}\<close>.
\<close>

fun json_dumps :: "nat \<Rightarrow> pyval \<Rightarrow> pystr" where
  "json_dumps level (PStr s) = encode_str s"
| "json_dumps level (PList xs) =
     (if xs = [] then [91, 93]
      else [91] @ newline_indent (level + 1) @
           join (44 # newline_indent (level + 1)) (map (json_dumps (level + 1)) xs) @
           newline_indent level @ [93])"
| "json_dumps level (PDict kvs) =
     (if kvs = [] then [123, 125]
      else [123] @ newline_indent (level + 1) @
           join (44 # newline_indent (level + 1))
             (map (\<lambda>kv. encode_str (fst kv) @ [colon, 32] @ json_dumps (level + 1) (snd kv))
                kvs) @
           newline_indent level @ [125])"

section \<open>The profile store and its two endpoints (main.py, lines 34 to 55)\<close>

text \<open>
  \<open>user_profiles_db\<close> is a module-level dict, so each handler takes the dict and, when it
  assigns to it, returns the new one.
\<close>

type_synonym profile_db = "pystr \<rightharpoonup> UserProfile"

datatype HTTPException = HTTPException (status_code: nat) (detail: pystr)

definition set_user_profile ::
  "profile_db \<Rightarrow> UserProfile \<Rightarrow> (pystr \<times> pystr) list \<times> profile_db" where
  "set_user_profile user_profiles_db profile =
     ([(lit ''message'', lit ''User profile updated successfully''),
       (lit ''user_id'', id' profile)],
      user_profiles_db(id' profile \<mapsto> profile))"

text \<open>
  \<open>user_profiles_db.get(user_id)\<close> is \<open>None\<close> for a missing key; a model instance is
  always truthy, so \<open>not profile\<close> holds exactly for \<open>None\<close>.
\<close>

definition get_user_profile :: "profile_db \<Rightarrow> pystr \<Rightarrow> HTTPException + UserProfile" where
  "get_user_profile user_profiles_db uid =
     (case user_profiles_db uid of
        None \<Rightarrow> Inl (HTTPException 404 (lit ''User profile not found. Please set it first.''))
      | Some profile \<Rightarrow> Inr profile)"

text \<open>The store after a sequence of \<open>POST /user_profile\<close> requests.\<close>

fun set_user_profiles :: "profile_db \<Rightarrow> UserProfile list \<Rightarrow> profile_db" where
  "set_user_profiles user_profiles_db [] = user_profiles_db"
| "set_user_profiles user_profiles_db (profile # profiles) =
     set_user_profiles (snd (set_user_profile user_profiles_db profile)) profiles"

section \<open>Generating responses (main.py, lines 57 to 137)\<close>

text \<open>
  The chain \<open>prompt | llm | StrOutputParser()\<close> belongs to the LLM library and the
  provider: \<open>chain.ainvoke\<close> is a parameter, from the dict of prompt variables to either
  the exception it raises or the completion text. The handler ends in one of three ways:
  it returns its response, it raises an \<open>HTTPException\<close>, or an exception that the
  clause \<open>except Exception as e\<close> does not catch leaves it. A run of the handler is its
  result, the store it leaves and the inputs of the chain invocations it made.
\<close>

datatype handler_exit = Raises HTTPException | Propagates py_exception

type_synonym chain_inputs = "(pystr \<times> pystr) list"

record endpoint_run =
  result :: "handler_exit + (pystr \<times> options_dict) list"
  db_after :: profile_db
  chain_calls :: "chain_inputs list"

definition prompt_inputs :: "UserProfile \<Rightarrow> GenerateResponseRequest \<Rightarrow> chain_inputs" where
  "prompt_inputs user_profile request =
     (let formatted_user_profile = json_dumps 0 (model_dump user_profile);
          desired_tones_str = join (lit '', '') (desired_tones request)
      in [(lit ''user_profile_json'', formatted_user_profile),
          (lit ''incoming_message'', incoming_message request),
          (lit ''conversation_context_type'', conversation_context_type request),
          (lit ''desired_tones_list'', desired_tones_str)])"

text \<open>
  The clause \<open>except Exception as e: raise HTTPException(status_code=500, ...)\<close> around
  the chain invocation and the parsing.
\<close>

definition except_Exception :: "py_exception \<Rightarrow> handler_exit" where
  "except_Exception e =
     (if isinstance_Exception e
      then Raises (HTTPException 500 (lit ''Error generating responses: '' @ exc_text e))
      else Propagates e)"

definition generate_responses_endpoint ::
  "(chain_inputs \<Rightarrow> py_exception + pystr) \<Rightarrow> profile_db \<Rightarrow> GenerateResponseRequest
     \<Rightarrow> endpoint_run" where
  "generate_responses_endpoint chain_ainvoke user_profiles_db request =
     (case user_profiles_db (user_id request) of
        None \<Rightarrow>
          \<lparr>result =
             Inl (Raises (HTTPException 404 (lit ''User profile not found. Please set it first.''))),
           db_after = user_profiles_db, chain_calls = []\<rparr>
      | Some user_profile \<Rightarrow>
          \<lparr>result =
             (case chain_ainvoke (prompt_inputs user_profile request) of
                Inl e \<Rightarrow> Inl (except_Exception e)
              | Inr response_text \<Rightarrow>
                  (case parse_response response_text of
                     Inl e \<Rightarrow> Inl (except_Exception e)
                   | Inr parsed_options \<Rightarrow> Inr [(lit ''options'', parsed_options)])),
           db_after = user_profiles_db,
           chain_calls = [prompt_inputs user_profile request]\<rparr>)"

section \<open>Schema validation of the request body (models.py, lines 24 to 28)\<close>

text \<open>
  The body of \<open>POST /generate_responses\<close> is a JSON value; a number is kept as its
  text, since no field of the schema admits one. An object is read with the last of
  several equal keys winning. \<open>user_id\<close> and \<open>incoming_message\<close> are required strings,
  \<open>conversation_context_type\<close> is one of its literals and defaults to \<open>casual\<close> when
  absent, \<open>desired_tones\<close> is a required list each of whose items is one of the tone
  literals; the declaration puts no bound on the length of the list. Other keys are ignored.
\<close>

datatype json =
  JNull | JBool bool | JNumber pystr | JString pystr | JArray "json list"
  | JObject "(pystr \<times> json) list"

datatype validation_error = ValidationError

definition obj_get :: "(pystr \<times> json) list \<Rightarrow> pystr \<Rightarrow> json option" where
  "obj_get kvs k = map_of (rev kvs) k"

fun validate_str :: "json option \<Rightarrow> pystr option" where
  "validate_str (Some (JString s)) = Some s"
| "validate_str _ = None"

fun validate_literal :: "pystr list \<Rightarrow> json \<Rightarrow> pystr option" where
  "validate_literal allowed (JString s) = (if s \<in> set allowed then Some s else None)"
| "validate_literal allowed _ = None"

fun validate_literal_list :: "pystr list \<Rightarrow> json option \<Rightarrow> pystr list option" where
  "validate_literal_list allowed (Some (JArray xs)) = those (map (validate_literal allowed) xs)"
| "validate_literal_list allowed _ = None"

definition validate_GenerateResponseRequest ::
  "json \<Rightarrow> validation_error + GenerateResponseRequest" where
  "validate_GenerateResponseRequest body =
     (case body of
        JObject kvs \<Rightarrow>
          (case (validate_str (obj_get kvs (lit ''user_id'')),
                 validate_str (obj_get kvs (lit ''incoming_message'')),
                 (case obj_get kvs (lit ''conversation_context_type'') of
                    None \<Rightarrow> Some (lit ''casual'')
                  | Some v \<Rightarrow> validate_literal conversation_context_types v),
                 validate_literal_list tones (obj_get kvs (lit ''desired_tones''))) of
             (Some u, Some m, Some c, Some ts) \<Rightarrow>
               Inr \<lparr>user_id = u, incoming_message = m, conversation_context_type = c,
                    desired_tones = ts\<rparr>
           | _ \<Rightarrow> Inl ValidationError)
      | _ \<Rightarrow> Inl ValidationError)"

text \<open>
  The route \<open>POST /generate_responses\<close>: the body is validated against the schema and the
  handler is called with the request only when it passes; otherwise the handler is not run.
\<close>

datatype route_outcome = Rejected validation_error | Handled endpoint_run

definition post_generate_responses ::
  "(chain_inputs \<Rightarrow> py_exception + pystr) \<Rightarrow> profile_db \<Rightarrow> json \<Rightarrow> route_outcome" where
  "post_generate_responses chain_ainvoke user_profiles_db body =
     (case validate_GenerateResponseRequest body of
        Inl err \<Rightarrow> Rejected err
      | Inr request \<Rightarrow> Handled (generate_responses_endpoint chain_ainvoke user_profiles_db request))"

section \<open>Vocabulary of the statements about the parser\<close>

text \<open>
  The trimmed tone label of a line and the options parsed from it: what the loop body
  computes from a line that contains a colon.
\<close>

definition tone_of :: "pystr \<Rightarrow> pystr" where
  "tone_of line = strip (takeWhile (\<lambda>c. c \<noteq> colon) line)"

definition options_str_of :: "pystr \<Rightarrow> pystr" where
  "options_str_of line = tl (dropWhile (\<lambda>c. c \<noteq> colon) line)"

definition options_of :: "pystr \<Rightarrow> pystr list" where
  "options_of line = parse_option_list (options_str_of line)"

text \<open>
  What one pass of the loop body does to the dict when it raises nothing: the reading of
  \<open>parse_line\<close> that the proofs below work with.
\<close>

definition apply_line :: "options_dict \<Rightarrow> pystr \<Rightarrow> options_dict" where
  "apply_line parsed_options line =
     (if colon \<in> set line \<and> options_of line \<noteq> []
      then AList.update (tone_of line) (options_of line) parsed_options
      else parsed_options)"

section \<open>Sample values\<close>

text \<open>A profile with the default traits, with and without a boundary statement.\<close>

definition default_personality :: Personality where
  "default_personality =
     \<lparr>openness = lit ''medium'', conscientiousness = lit ''medium'',
      extraversion = lit ''medium'', agreeableness = lit ''medium'',
      neuroticism = lit ''medium''\<rparr>"

definition default_communication_style :: CommunicationStyle where
  "default_communication_style =
     \<lparr>formality_preference = lit ''casual'', conciseness_preference = lit ''concise'',
      humor_level = lit ''medium'', empathy_level = lit ''medium'',
      flirty_level = lit ''none''\<rparr>"

definition profile_with_boundaries :: UserProfile where
  "profile_with_boundaries =
     \<lparr>id' = lit ''u1'', personality = default_personality,
      communication_style = default_communication_style,
      values_boundaries = [lit ''No profanity'']\<rparr>"

definition profile_without_boundaries :: UserProfile where
  "profile_without_boundaries =
     \<lparr>id' = lit ''u1'', personality = default_personality,
      communication_style = default_communication_style,
      values_boundaries = []\<rparr>"

definition sample_request :: GenerateResponseRequest where
  "sample_request =
     \<lparr>user_id = lit ''u1'', incoming_message = lit ''Hi'',
      conversation_context_type = lit ''casual'', desired_tones = [lit ''funny'']\<rparr>"

text \<open>
  A provider call that raises an \<open>Exception\<close>, and one that is cancelled:
  \<open>asyncio.CancelledError\<close> derives from \<open>BaseException\<close> only and its text is empty.
\<close>

definition failing_chain :: "chain_inputs \<Rightarrow> py_exception + pystr" where
  "failing_chain inputs =
     Inl (PyException (lit ''TimeoutError'') True (lit ''Request timed out.''))"

definition cancelled_chain :: "chain_inputs \<Rightarrow> py_exception + pystr" where
  "cancelled_chain inputs = Inl (PyException (lit ''CancelledError'') False [])"

text \<open>
  A line whose options are all blank, a completion where such a line follows a line with
  the same label and an option, a completion that repeats a tone label, and a request body
  whose list of tones is empty.
\<close>

definition blank_options_line :: pystr where
  "blank_options_line = lit ''Funny:  | ''"

definition blank_after_option_completion :: pystr where
  "blank_after_option_completion = lit ''Funny: a'' @ [newline] @ lit ''Funny: |''"

definition duplicate_tone_completion :: pystr where
  "duplicate_tone_completion =
     lit ''Funny: a'' @ [newline] @ lit ''Funny: b | c'' @ [newline] @ lit ''Funny: |''"

definition empty_tones_body :: json where
  "empty_tones_body =
     JObject [(lit ''user_id'', JString (lit ''u1'')),
              (lit ''incoming_message'', JString (lit ''Hi'')),
              (lit ''desired_tones'', JArray [])]"

text \<open>The canned completion of the specification.\<close>

definition canned_completion :: pystr where
  "canned_completion =
     lit ''Professional: Hello there. | Good day.'' @ [newline] @ lit ''Funny: lol no''"

section \<open>Properties of the parser\<close>

text \<open>
  C1. For the completion made of the line \<open>Professional: Hello there. | Good day.\<close>
  followed by the line \<open>Funny: lol no\<close>, the parsing step yields exactly the mapping
  with \<open>Professional\<close> bound to the two options \<open>Hello there.\<close> and \<open>Good day.\<close> and
  \<open>Funny\<close> bound to the single option \<open>lol no\<close>, in that order and with no other key.
\<close>

theorem parse_canned_completion:
  "parse_response canned_completion =
     Inr [(lit ''Professional'', [lit ''Hello there.'', lit ''Good day.'']),
          (lit ''Funny'', [lit ''lol no''])]"
  by (simp add: parse_response_def canned_completion_def lit_def strip_def isspace_def
      parse_line_def parse_option_list_def split1_def)

subsection \<open>The loop as a fold\<close>

lemma unpack2_split1:
  "colon \<in> set line \<Longrightarrow>
   unpack2 (split1 colon line) = Inr (takeWhile (\<lambda>c. c \<noteq> colon) line, options_str_of line)"
  by (simp add: split1_def options_str_of_def)

lemma parse_line_eq: "parse_line parsed_options line = Inr (apply_line parsed_options line)"
  by (simp add: parse_line_def apply_line_def unpack2_split1 tone_of_def options_of_def Let_def)

lemma parse_lines_eq: "parse_lines parsed_options ls = Inr (foldl apply_line parsed_options ls)"
  by (induction ls arbitrary: parsed_options) (simp_all add: parse_line_eq)

lemma strip_blank:
  assumes "\<forall>c \<in> set s. isspace c"
  shows "strip s = []"
  using assms by (auto simp: strip_def dest: set_dropWhileD)

lemma blank_options:
  assumes "\<forall>opt \<in> set (split pipe (options_str_of line)). \<forall>c \<in> set opt. isspace c"
  shows "options_of line = []"
  using assms by (simp add: options_of_def parse_option_list_def filter_empty_conv strip_blank)

lemma map_of_foldl_apply_line:
  "map_of (foldl apply_line d ls) t =
     (case filter (\<lambda>l. colon \<in> set l \<and> options_of l \<noteq> [] \<and> tone_of l = t) ls of
        [] \<Rightarrow> map_of d t
      | l # rest \<Rightarrow> Some (options_of (last (l # rest))))"
proof (induction ls rule: rev_induct)
  case Nil
  then show ?case by simp
next
  case (snoc x xs)
  show ?case
  proof (cases "colon \<in> set x \<and> options_of x \<noteq> []")
    case False
    with snoc show ?thesis by (auto simp: apply_line_def)
  next
    case True
    show ?thesis
    proof (cases "tone_of x = t")
      case True
      with \<open>colon \<in> set x \<and> options_of x \<noteq> []\<close> show ?thesis
        by (cases "filter (\<lambda>l. colon \<in> set l \<and> options_of l \<noteq> [] \<and> tone_of l = t) xs")
          (simp_all add: apply_line_def update_conv')
    next
      case False
      with True snoc show ?thesis
        by (simp add: apply_line_def update_conv')
    qed
  qed
qed

lemma distinct_foldl_apply_line:
  "distinct (map fst d) \<Longrightarrow> distinct (map fst (foldl apply_line d ls))"
  by (induction ls arbitrary: d) (simp_all add: apply_line_def distinct_update)

lemma one_entry:
  "distinct (map fst d) \<Longrightarrow> map_of d t = Some v \<Longrightarrow> length (filter (\<lambda>entry. fst entry = t) d) = 1"
proof (induction d)
  case Nil
  then show ?case by simp
next
  case (Cons e d)
  show ?case
  proof (cases "fst e = t")
    case True
    with Cons.prems have "t \<notin> fst ` set d" by simp
    then have "\<forall>entry \<in> set d. fst entry \<noteq> t" by blast
    then have "filter (\<lambda>entry. fst entry = t) d = []" by (simp add: filter_empty_conv)
    with True show ?thesis by simp
  next
    case False
    with Cons show ?thesis by (cases e) auto
  qed
qed

subsection \<open>Lines that contribute nothing\<close>

text \<open>
  C8. For every completion text the parsing step returns a dict, that is, it raises no
  exception; and a line without a colon leaves the dict built so far as it is, so the dict
  returned for any list of lines is the one returned without that line.
\<close>

theorem parse_total_and_colonless_lines_ignored:
  "(\<exists>parsed_options. parse_response response_text = Inr parsed_options)
   \<and> (colon \<notin> set line \<longrightarrow>
        parse_line d line = Inr d
        \<and> parse_lines d (earlier @ line # later) = parse_lines d (earlier @ later))"
  by (simp add: parse_response_def parse_lines_eq parse_line_eq apply_line_def)

theorem parse_total_and_colonless_lines_ignored_witness:
  "colon \<notin> set (lit ''no options here'')
   \<and> (\<exists>parsed_options. parse_response (lit ''no options here'') = Inr parsed_options)
   \<and> parse_lines [] ([] @ lit ''no options here'' # [lit ''Funny: ha'']) =
       parse_lines [] ([] @ [lit ''Funny: ha''])"
  using parse_total_and_colonless_lines_ignored
    [of "lit ''no options here''" "lit ''no options here''" "[]" "[]" "[lit ''Funny: ha'']"]
  by (simp add: lit_def)

lemma label_bound_iff:
  "map_of (foldl apply_line [] ls) t \<noteq> None \<longleftrightarrow>
     (\<exists>l \<in> set ls. colon \<in> set l \<and> tone_of l = t \<and> options_of l \<noteq> [])"
proof -
  let ?P = "\<lambda>l. colon \<in> set l \<and> options_of l \<noteq> [] \<and> tone_of l = t"
  have "map_of (foldl apply_line [] ls) t \<noteq> None \<longleftrightarrow> filter ?P ls \<noteq> []"
    by (simp add: map_of_foldl_apply_line split: list.split)
  also have "\<dots> \<longleftrightarrow> (\<exists>l \<in> set ls. ?P l)"
    by (simp add: filter_empty_conv)
  finally show ?thesis
    by blast
qed

text \<open>
  C7 does not hold as it is stated. In the completion \<open>Funny: a\<close>, \<open>Funny: |\<close> the second
  line has a colon and only empty segments after it, and its tone label is \<open>Funny\<close>; the
  returned dict has an entry for \<open>Funny\<close> all the same, the one of the first line.
\<close>

theorem blank_line_label_still_bound:
  "split newline (strip blank_after_option_completion) = [lit ''Funny: a'', lit ''Funny: |'']
   \<and> colon \<in> set (lit ''Funny: |'')
   \<and> list_all (list_all isspace) (split pipe (options_str_of (lit ''Funny: |'')))
   \<and> tone_of (lit ''Funny: |'') = lit ''Funny''
   \<and> parse_response blank_after_option_completion = Inr [(lit ''Funny'', [lit ''a''])]"
  by (simp add: blank_after_option_completion_def parse_response_def lit_def strip_def
      isspace_def parse_line_def parse_option_list_def split1_def options_str_of_def
      tone_of_def)

text \<open>
  C7, as the code has it. A line that contains a colon and whose text after the first
  colon, split at the pipes, has only segments made of whitespace (or of nothing) adds no
  entry: it leaves the dict built so far as it is, the dict returned for any list of lines
  is the one returned without that line, and the returned dict has an entry for the tone
  label of the line exactly when another line with that label has an option.
\<close>

theorem blank_options_line_yields_no_entry:
  assumes "colon \<in> set line"
    and "\<forall>opt \<in> set (split pipe (options_str_of line)). \<forall>c \<in> set opt. isspace c"
  shows "parse_line d line = Inr d
         \<and> parse_lines d (earlier @ line # later) = parse_lines d (earlier @ later)
         \<and> (\<exists>parsed_options.
               parse_lines [] (earlier @ line # later) = Inr parsed_options
               \<and> (map_of parsed_options (tone_of line) \<noteq> None \<longleftrightarrow>
                    (\<exists>other \<in> set (earlier @ later).
                       colon \<in> set other \<and> tone_of other = tone_of line
                       \<and> options_of other \<noteq> [])))"
proof -
  have blank: "options_of line = []"
    using assms(2) by (rule blank_options)
  then have noop: "apply_line d' line = d'" for d'
    by (simp add: apply_line_def)
  have same: "foldl apply_line d' (earlier @ line # later) = foldl apply_line d' (earlier @ later)"
    for d'
    by (simp add: noop)
  have "map_of (foldl apply_line [] (earlier @ line # later)) (tone_of line) \<noteq> None \<longleftrightarrow>
          (\<exists>other \<in> set (earlier @ later).
             colon \<in> set other \<and> tone_of other = tone_of line \<and> options_of other \<noteq> [])"
    unfolding same by (rule label_bound_iff)
  with noop same show ?thesis
    by (simp add: parse_line_eq parse_lines_eq)
qed

theorem blank_options_line_yields_no_entry_witness:
  "colon \<in> set blank_options_line
   \<and> list_all (list_all isspace) (split pipe (options_str_of blank_options_line))
   \<and> parse_line [(lit ''Formal'', [lit ''Hi''])] blank_options_line =
       Inr [(lit ''Formal'', [lit ''Hi''])]
   \<and> parse_lines [] ([lit ''Formal: Hi''] @ blank_options_line # []) =
       parse_lines [] ([lit ''Formal: Hi''] @ [])"
proof -
  have c: "colon \<in> set blank_options_line"
    by (simp add: blank_options_line_def lit_def)
  have blank: "list_all (list_all isspace) (split pipe (options_str_of blank_options_line))"
    by (simp add: blank_options_line_def lit_def options_str_of_def isspace_def)
  then have b: "\<forall>opt \<in> set (split pipe (options_str_of blank_options_line)).
                  \<forall>c \<in> set opt. isspace c"
    by (simp add: list_all_iff)
  from blank_options_line_yields_no_entry [OF c b, of "[(lit ''Formal'', [lit ''Hi''])]"
      "[lit ''Formal: Hi'']" "[]"]
    blank_options_line_yields_no_entry [OF c b, of "[]" "[lit ''Formal: Hi'']" "[]"]
  show ?thesis
    using c blank by blast
qed

subsection \<open>Repeated tone labels\<close>

text \<open>
  C10. In a completion where two or more lines with a colon have the same trimmed tone
  label and at least one option each, the returned dict has exactly one entry for that
  label, and its value is the option list of the last of these lines: the options of the
  earlier ones are gone, a line with that label and no option changes nothing wherever it
  stands, and no error is raised.
\<close>

theorem last_line_wins:
  assumes "same = filter (\<lambda>line. colon \<in> set line \<and> tone_of line = tone \<and> options_of line \<noteq> [])
                    (split newline (strip response_text))"
    and "2 \<le> length same"
  shows "\<exists>parsed_options.
           parse_response response_text = Inr parsed_options
           \<and> map_of parsed_options tone = Some (options_of (last same))
           \<and> length (filter (\<lambda>entry. fst entry = tone) parsed_options) = 1"
proof -
  let ?ls = "split newline (strip response_text)"
  let ?d = "foldl apply_line [] ?ls"
  have "filter (\<lambda>l. colon \<in> set l \<and> options_of l \<noteq> [] \<and> tone_of l = tone) ?ls = same"
    unfolding assms(1) by (intro filter_cong) auto
  moreover from assms(2) obtain l rest where "same = l # rest"
    by (cases same) auto
  ultimately have bound: "map_of ?d tone = Some (options_of (last same))"
    by (simp add: map_of_foldl_apply_line)
  have "distinct (map fst ?d)"
    by (rule distinct_foldl_apply_line) simp
  then have "length (filter (\<lambda>entry. fst entry = tone) ?d) = 1"
    using bound by (rule one_entry)
  with bound show ?thesis
    by (simp add: parse_response_def parse_lines_eq)
qed

theorem last_line_wins_witness:
  "2 \<le> length [lit ''Funny: a'', lit ''Funny: b | c'']
   \<and> (\<exists>parsed_options.
         parse_response duplicate_tone_completion = Inr parsed_options
         \<and> map_of parsed_options (lit ''Funny'') = Some [lit ''b'', lit ''c'']
         \<and> length (filter (\<lambda>entry. fst entry = lit ''Funny'') parsed_options) = 1)"
proof -
  let ?same = "[lit ''Funny: a'', lit ''Funny: b | c'']"
  have s: "?same = filter (\<lambda>line. colon \<in> set line \<and> tone_of line = lit ''Funny''
                             \<and> options_of line \<noteq> [])
                     (split newline (strip duplicate_tone_completion))"
    by (simp add: duplicate_tone_completion_def lit_def strip_def isspace_def tone_of_def
        options_of_def options_str_of_def parse_option_list_def)
  have n: "2 \<le> length ?same"
    by simp
  have l: "options_of (last ?same) = [lit ''b'', lit ''c'']"
    by (simp add: lit_def options_of_def options_str_of_def parse_option_list_def strip_def
        isspace_def)
  from last_line_wins [OF s n] l n show ?thesis
    by simp
qed

section \<open>Properties of the profile store\<close>

lemma get_absent:
  "user_profiles_db uid = None \<Longrightarrow>
   get_user_profile user_profiles_db uid =
     Inl (HTTPException 404 (lit ''User profile not found. Please set it first.''))"
  by (simp add: get_user_profile_def)

lemma set_user_profiles_other:
  "uid \<notin> id' ` set profiles \<Longrightarrow>
   set_user_profiles user_profiles_db profiles uid = user_profiles_db uid"
  by (induction profiles arbitrary: user_profiles_db) (auto simp: set_user_profile_def)

text \<open>
  C3. For every profile \<open>p\<close> and every state of the store, \<open>set_user_profile(p)\<close>
  followed by \<open>get_user_profile(p.id)\<close> returns \<open>p\<close> itself.
\<close>

theorem set_then_get_round_trip:
  "get_user_profile (snd (set_user_profile user_profiles_db p)) (id' p) = Inr p"
  by (simp add: set_user_profile_def get_user_profile_def)

text \<open>
  C4. For two profiles with the same id, setting the first and then the second leaves the
  store exactly as setting the second alone does: the entry of that id is the second
  profile, all its fields included, so no boundary statement of the first survives unless
  the second has it too.
\<close>

theorem set_twice_replaces:
  assumes "id' p1 = id' p2"
  shows "snd (set_user_profile (snd (set_user_profile user_profiles_db p1)) p2)
           = snd (set_user_profile user_profiles_db p2)
         \<and> snd (set_user_profile (snd (set_user_profile user_profiles_db p1)) p2) (id' p1)
           = Some p2
         \<and> get_user_profile (snd (set_user_profile (snd (set_user_profile user_profiles_db p1)) p2))
             (id' p1) = Inr p2"
  using assms by (simp add: set_user_profile_def get_user_profile_def)

theorem set_twice_replaces_witness:
  "id' profile_with_boundaries = id' profile_without_boundaries
   \<and> get_user_profile
        (snd (set_user_profile (snd (set_user_profile Map.empty profile_with_boundaries))
                profile_without_boundaries)) (lit ''u1'')
      = Inr profile_without_boundaries
   \<and> values_boundaries profile_without_boundaries = []"
proof -
  have same: "id' profile_with_boundaries = id' profile_without_boundaries"
    by (simp add: profile_with_boundaries_def profile_without_boundaries_def)
  have key: "id' profile_with_boundaries = lit ''u1''"
    by (simp add: profile_with_boundaries_def)
  have none: "values_boundaries profile_without_boundaries = []"
    by (simp add: profile_without_boundaries_def)
  from set_twice_replaces [OF same, of Map.empty]
  have "get_user_profile
          (snd (set_user_profile (snd (set_user_profile Map.empty profile_with_boundaries))
                  profile_without_boundaries)) (id' profile_with_boundaries)
        = Inr profile_without_boundaries"
    by blast
  with same key none show ?thesis
    by simp
qed

text \<open>
  C6. After any sequence of \<open>set_user_profile\<close> calls on the initially empty store, none
  of them for the id \<open>uid\<close>, \<open>get_user_profile(uid)\<close> raises the 404 error whose detail
  is exactly \<open>User profile not found. Please set it first.\<close>
\<close>

theorem get_never_set_not_found:
  assumes "uid \<notin> id' ` set profiles"
  shows "get_user_profile (set_user_profiles Map.empty profiles) uid =
           Inl (HTTPException 404 (lit ''User profile not found. Please set it first.''))"
  using assms by (simp add: get_absent set_user_profiles_other)

theorem get_never_set_not_found_witness:
  "lit ''u2'' \<notin> id' ` set [profile_with_boundaries]
   \<and> get_user_profile (set_user_profiles Map.empty [profile_with_boundaries]) (lit ''u2'') =
       Inl (HTTPException 404 (lit ''User profile not found. Please set it first.''))"
  using get_never_set_not_found [of "lit ''u2''" "[profile_with_boundaries]"]
  by (simp add: profile_with_boundaries_def lit_def)

section \<open>Properties of the generation endpoint\<close>

text \<open>
  C5. For every request whose \<open>user_id\<close> is not a key of the store, the handler raises
  the 404 error and makes no chain invocation (and leaves the store as it was), whatever
  the provider would have answered.
\<close>

theorem unknown_user_no_provider_call:
  assumes "user_profiles_db (user_id request) = None"
  shows "generate_responses_endpoint chain_ainvoke user_profiles_db request =
           \<lparr>result =
              Inl (Raises (HTTPException 404 (lit ''User profile not found. Please set it first.''))),
            db_after = user_profiles_db, chain_calls = []\<rparr>"
  using assms by (simp add: generate_responses_endpoint_def)

theorem unknown_user_no_provider_call_witness:
  "Map.empty (user_id sample_request) = None
   \<and> generate_responses_endpoint failing_chain Map.empty sample_request =
       \<lparr>result =
          Inl (Raises (HTTPException 404 (lit ''User profile not found. Please set it first.''))),
        db_after = Map.empty, chain_calls = []\<rparr>"
  using unknown_user_no_provider_call [of Map.empty sample_request failing_chain]
  by simp

text \<open>
  C2 does not hold as it is stated. For a stored user and a provider call that raises
  \<open>asyncio.CancelledError\<close>, which is no instance of \<open>Exception\<close>, the clause
  \<open>except Exception\<close> does not apply: the exception leaves the handler and no 500 error
  is raised.
\<close>

theorem cancelled_provider_call_no_500:
  "[lit ''u1'' \<mapsto> profile_with_boundaries] (user_id sample_request) =
     Some profile_with_boundaries
   \<and> cancelled_chain (prompt_inputs profile_with_boundaries sample_request) =
       Inl (PyException (lit ''CancelledError'') False [])
   \<and> result (generate_responses_endpoint cancelled_chain
               [lit ''u1'' \<mapsto> profile_with_boundaries] sample_request) =
       Inl (Propagates (PyException (lit ''CancelledError'') False []))
   \<and> result (generate_responses_endpoint cancelled_chain
               [lit ''u1'' \<mapsto> profile_with_boundaries] sample_request) \<noteq>
       Inl (Raises (HTTPException 500 (lit ''Error generating responses: '' @ [])))"
  by (simp add: generate_responses_endpoint_def except_Exception_def cancelled_chain_def
      sample_request_def)

text \<open>
  C2, as the code has it. For every request whose \<open>user_id\<close> is a key of the store, if
  the one chain invocation raises an exception \<open>e\<close> that is an instance of \<open>Exception\<close>,
  the handler raises the 500 error whose detail is \<open>Error generating responses: \<close>
  followed by \<open>str(e)\<close>; an exception that is no instance of \<open>Exception\<close> leaves the
  handler as it is; in both cases the store after the call is the store before it.
\<close>

theorem provider_failure_gives_500:
  assumes "user_profiles_db (user_id request) = Some user_profile"
    and "chain_ainvoke (prompt_inputs user_profile request) = Inl e"
  shows "(isinstance_Exception e \<longrightarrow>
            result (generate_responses_endpoint chain_ainvoke user_profiles_db request) =
              Inl (Raises (HTTPException 500 (lit ''Error generating responses: '' @ exc_text e))))
         \<and> (\<not> isinstance_Exception e \<longrightarrow>
            result (generate_responses_endpoint chain_ainvoke user_profiles_db request) =
              Inl (Propagates e))
         \<and> db_after (generate_responses_endpoint chain_ainvoke user_profiles_db request) =
           user_profiles_db
         \<and> chain_calls (generate_responses_endpoint chain_ainvoke user_profiles_db request) =
           [prompt_inputs user_profile request]"
  using assms by (simp add: generate_responses_endpoint_def except_Exception_def)

theorem provider_failure_gives_500_witness:
  "isinstance_Exception (PyException (lit ''TimeoutError'') True (lit ''Request timed out.''))
   \<and> result (generate_responses_endpoint failing_chain
            [lit ''u1'' \<mapsto> profile_with_boundaries] sample_request) =
     Inl (Raises (HTTPException 500 (lit ''Error generating responses: Request timed out.'')))
   \<and> db_after (generate_responses_endpoint failing_chain
            [lit ''u1'' \<mapsto> profile_with_boundaries] sample_request) =
     [lit ''u1'' \<mapsto> profile_with_boundaries]"
  using provider_failure_gives_500 [of "[lit ''u1'' \<mapsto> profile_with_boundaries]"
      sample_request profile_with_boundaries failing_chain
      "PyException (lit ''TimeoutError'') True (lit ''Request timed out.'')"]
  by (simp add: sample_request_def failing_chain_def lit_def)

section \<open>Properties of schema validation\<close>

lemma validate_str_iff: "validate_str v = Some s \<longleftrightarrow> v = Some (JString s)"
  by (cases v rule: validate_str.cases) auto

lemma validate_literal_iff:
  "validate_literal allowed x = Some s \<longleftrightarrow> x = JString s \<and> s \<in> set allowed"
  by (cases x) auto

lemma those_validate_literal_iff:
  "those (map (validate_literal allowed) xs) = Some ts \<longleftrightarrow>
     xs = map JString ts \<and> set ts \<subseteq> set allowed"
proof (induction xs arbitrary: ts)
  case Nil
  then show ?case by auto
next
  case (Cons x xs)
  show ?case
  proof (cases ts)
    case Nil
    then show ?thesis
      by (auto split: option.splits)
  next
    case (Cons t ts')
    with Cons.IH [of ts'] show ?thesis
      by (auto simp: validate_literal_iff split: option.splits)
  qed
qed

lemma validate_literal_list_iff:
  "validate_literal_list allowed v = Some ts \<longleftrightarrow>
     v = Some (JArray (map JString ts)) \<and> set ts \<subseteq> set allowed"
  by (cases "(allowed, v)" rule: validate_literal_list.cases)
    (auto simp: those_validate_literal_iff)

lemma validate_context_iff:
  "(case v of None \<Rightarrow> Some (lit ''casual'')
    | Some x \<Rightarrow> validate_literal conversation_context_types x) = Some c \<longleftrightarrow>
     v = None \<and> c = lit ''casual''
     \<or> v = Some (JString c) \<and> c \<in> set conversation_context_types"
  by (cases v) (auto simp: validate_literal_iff)

lemma validate_object_iff:
  "validate_GenerateResponseRequest (JObject kvs) =
     Inr \<lparr>user_id = u, incoming_message = m, conversation_context_type = c,
          desired_tones = ts\<rparr> \<longleftrightarrow>
   obj_get kvs (lit ''user_id'') = Some (JString u)
   \<and> obj_get kvs (lit ''incoming_message'') = Some (JString m)
   \<and> (obj_get kvs (lit ''conversation_context_type'') = None \<and> c = lit ''casual''
      \<or> obj_get kvs (lit ''conversation_context_type'') = Some (JString c)
        \<and> c \<in> set conversation_context_types)
   \<and> obj_get kvs (lit ''desired_tones'') = Some (JArray (map JString ts))
   \<and> set ts \<subseteq> set tones"
proof -
  let ?u = "validate_str (obj_get kvs (lit ''user_id''))"
  let ?m = "validate_str (obj_get kvs (lit ''incoming_message''))"
  let ?c = "case obj_get kvs (lit ''conversation_context_type'') of
              None \<Rightarrow> Some (lit ''casual'')
            | Some x \<Rightarrow> validate_literal conversation_context_types x"
  let ?ts = "validate_literal_list tones (obj_get kvs (lit ''desired_tones''))"
  have "validate_GenerateResponseRequest (JObject kvs) =
          Inr \<lparr>user_id = u, incoming_message = m, conversation_context_type = c,
               desired_tones = ts\<rparr> \<longleftrightarrow>
        ?u = Some u \<and> ?m = Some m \<and> ?c = Some c \<and> ?ts = Some ts"
    unfolding validate_GenerateResponseRequest_def
    by (cases ?u; cases ?m; cases ?c; cases ?ts) auto
  then show ?thesis
    unfolding validate_str_iff validate_context_iff validate_literal_list_iff
    by blast
qed

lemma validate_accepts_objects_only:
  "validate_GenerateResponseRequest body = Inr request \<Longrightarrow> \<exists>kvs. body = JObject kvs"
  by (cases body) (simp_all add: validate_GenerateResponseRequest_def)

lemma validate_rejects: "validate_GenerateResponseRequest body = Inl err \<Longrightarrow> err = ValidationError"
  by (cases err) simp

text \<open>
  C9 does not hold as it is stated: a body with the required strings and an empty list of
  tones passes validation, and the route runs the handler on a request that has no desired
  tone; for a stored user the handler goes on to invoke the chain.
\<close>

theorem empty_desired_tones_accepted:
  "validate_GenerateResponseRequest empty_tones_body =
     Inr \<lparr>user_id = lit ''u1'', incoming_message = lit ''Hi'',
          conversation_context_type = lit ''casual'', desired_tones = []\<rparr>
   \<and> post_generate_responses failing_chain [lit ''u1'' \<mapsto> profile_with_boundaries]
       empty_tones_body =
     Handled (generate_responses_endpoint failing_chain [lit ''u1'' \<mapsto> profile_with_boundaries]
       \<lparr>user_id = lit ''u1'', incoming_message = lit ''Hi'',
        conversation_context_type = lit ''casual'', desired_tones = []\<rparr>)
   \<and> length (chain_calls (generate_responses_endpoint failing_chain
        [lit ''u1'' \<mapsto> profile_with_boundaries]
        \<lparr>user_id = lit ''u1'', incoming_message = lit ''Hi'',
         conversation_context_type = lit ''casual'', desired_tones = []\<rparr>)) = 1"
proof -
  have v: "validate_GenerateResponseRequest empty_tones_body =
     Inr \<lparr>user_id = lit ''u1'', incoming_message = lit ''Hi'',
          conversation_context_type = lit ''casual'', desired_tones = []\<rparr>"
    by (simp add: validate_GenerateResponseRequest_def empty_tones_body_def obj_get_def lit_def)
  then show ?thesis
    by (simp add: post_generate_responses_def generate_responses_endpoint_def)
qed

text \<open>
  C9, as the schema has it. A body is accepted by schema validation, as a given request,
  exactly when it is a JSON object whose \<open>user_id\<close> and \<open>incoming_message\<close> are the
  strings of the request, whose \<open>conversation_context_type\<close> is absent (the request then
  has \<open>casual\<close>) or the context literal of the request, and whose \<open>desired_tones\<close> is the
  list of the request's tones, each one of the ten tone literals; the list may have any
  length, the empty one included. An accepted body is passed to the handler as that
  request, and every other body is rejected without the handler being run.
\<close>

theorem accepted_request_desired_tones:
  "(validate_GenerateResponseRequest body = Inr request \<longleftrightarrow>
      (\<exists>kvs. body = JObject kvs
         \<and> obj_get kvs (lit ''user_id'') = Some (JString (user_id request))
         \<and> obj_get kvs (lit ''incoming_message'') = Some (JString (incoming_message request))
         \<and> (obj_get kvs (lit ''conversation_context_type'') = None
              \<and> conversation_context_type request = lit ''casual''
            \<or> obj_get kvs (lit ''conversation_context_type'') =
                Some (JString (conversation_context_type request))
              \<and> conversation_context_type request \<in> set conversation_context_types)
         \<and> obj_get kvs (lit ''desired_tones'') = Some (JArray (map JString (desired_tones request)))
         \<and> set (desired_tones request) \<subseteq> set tones))
   \<and> (validate_GenerateResponseRequest body = Inr request \<longrightarrow>
        post_generate_responses chain_ainvoke user_profiles_db body =
          Handled (generate_responses_endpoint chain_ainvoke user_profiles_db request))
   \<and> ((\<forall>r. validate_GenerateResponseRequest body \<noteq> Inr r) \<longrightarrow>
        post_generate_responses chain_ainvoke user_profiles_db body = Rejected ValidationError)"
proof (intro conjI)
  obtain u m c ts where request:
    "request = \<lparr>user_id = u, incoming_message = m, conversation_context_type = c,
                 desired_tones = ts\<rparr>"
    by (cases request) auto
  show "validate_GenerateResponseRequest body = Inr request \<longleftrightarrow>
      (\<exists>kvs. body = JObject kvs
         \<and> obj_get kvs (lit ''user_id'') = Some (JString (user_id request))
         \<and> obj_get kvs (lit ''incoming_message'') = Some (JString (incoming_message request))
         \<and> (obj_get kvs (lit ''conversation_context_type'') = None
              \<and> conversation_context_type request = lit ''casual''
            \<or> obj_get kvs (lit ''conversation_context_type'') =
                Some (JString (conversation_context_type request))
              \<and> conversation_context_type request \<in> set conversation_context_types)
         \<and> obj_get kvs (lit ''desired_tones'') = Some (JArray (map JString (desired_tones request)))
         \<and> set (desired_tones request) \<subseteq> set tones)"
  proof
    assume accepted: "validate_GenerateResponseRequest body = Inr request"
    then obtain kvs where "body = JObject kvs"
      by (auto dest: validate_accepts_objects_only)
    with accepted show "\<exists>kvs. body = JObject kvs
         \<and> obj_get kvs (lit ''user_id'') = Some (JString (user_id request))
         \<and> obj_get kvs (lit ''incoming_message'') = Some (JString (incoming_message request))
         \<and> (obj_get kvs (lit ''conversation_context_type'') = None
              \<and> conversation_context_type request = lit ''casual''
            \<or> obj_get kvs (lit ''conversation_context_type'') =
                Some (JString (conversation_context_type request))
              \<and> conversation_context_type request \<in> set conversation_context_types)
         \<and> obj_get kvs (lit ''desired_tones'') = Some (JArray (map JString (desired_tones request)))
         \<and> set (desired_tones request) \<subseteq> set tones"
      unfolding request by (simp add: validate_object_iff)
  next
    assume "\<exists>kvs. body = JObject kvs
         \<and> obj_get kvs (lit ''user_id'') = Some (JString (user_id request))
         \<and> obj_get kvs (lit ''incoming_message'') = Some (JString (incoming_message request))
         \<and> (obj_get kvs (lit ''conversation_context_type'') = None
              \<and> conversation_context_type request = lit ''casual''
            \<or> obj_get kvs (lit ''conversation_context_type'') =
                Some (JString (conversation_context_type request))
              \<and> conversation_context_type request \<in> set conversation_context_types)
         \<and> obj_get kvs (lit ''desired_tones'') = Some (JArray (map JString (desired_tones request)))
         \<and> set (desired_tones request) \<subseteq> set tones"
    then show "validate_GenerateResponseRequest body = Inr request"
      unfolding request by (auto simp: validate_object_iff)
  qed
next
  show "validate_GenerateResponseRequest body = Inr request \<longrightarrow>
        post_generate_responses chain_ainvoke user_profiles_db body =
          Handled (generate_responses_endpoint chain_ainvoke user_profiles_db request)"
    by (simp add: post_generate_responses_def)
next
  show "(\<forall>r. validate_GenerateResponseRequest body \<noteq> Inr r) \<longrightarrow>
        post_generate_responses chain_ainvoke user_profiles_db body = Rejected ValidationError"
    by (cases "validate_GenerateResponseRequest body")
      (auto simp: post_generate_responses_def dest: validate_rejects)
qed

theorem accepted_request_desired_tones_witness:
  "validate_GenerateResponseRequest empty_tones_body =
     Inr \<lparr>user_id = lit ''u1'', incoming_message = lit ''Hi'',
          conversation_context_type = lit ''casual'', desired_tones = []\<rparr>
   \<and> post_generate_responses failing_chain Map.empty empty_tones_body =
       Handled (generate_responses_endpoint failing_chain Map.empty
         \<lparr>user_id = lit ''u1'', incoming_message = lit ''Hi'',
          conversation_context_type = lit ''casual'', desired_tones = []\<rparr>)"
  using accepted_request_desired_tones [of empty_tones_body
      "\<lparr>user_id = lit ''u1'', incoming_message = lit ''Hi'',
        conversation_context_type = lit ''casual'', desired_tones = []\<rparr>"
      failing_chain Map.empty]
  by (simp add: empty_tones_body_def obj_get_def lit_def)

end
